theory Spec2Isabelle
  imports Complex_Main
begin

section \<open>Data model\<close>

text \<open>
  The tender matcher is a Python program. Python \<open>float\<close> and NumPy \<open>float32\<close> values are
  modelled as \<open>real\<close> numbers: rounding to binary64/binary32 is not modelled, so a cast
  \<open>astype('float32')\<close> is the identity on the numbers and only its failure on values
  that are not numeric arrays is kept. Values that cross the boundary to the outside (the
  body of an embedding response, the dictionaries returned to the caller) are JSON-like
  trees.
\<close>

datatype json =
    JNull
  | JNum real
  | JStr string
  | JArr "json list"
  | JObj "(string \<times> json) list"

type_synonym vec = "real list"

datatype exn =
    ValueError
  | TypeError
  | AttributeError
  | IndexError
  | AssertionError
  | NotImplementedError
  | ConnectionError

text \<open>
  \<open>TenderSchema\<close> of \<open>utils/config.py\<close>. The field \<open>id\<close> is called \<open>id_t\<close> here. The field
  \<open>embedding\<close> is declared \<open>Optional[List[float]]\<close> but pydantic does not validate an
  assignment, so it holds whatever \<open>get_embedding\<close> returned: a JSON value, \<open>JNull\<close> for
  Python's \<open>None\<close>.
\<close>

record tender =
  id_t :: string
  title :: string
  description :: string
  amount :: "real option"
  deadline :: "string option"
  source :: string
  url :: string
  category :: "string option"
  department :: "string option"
  location :: "string option"
  publication_date :: "string option"
  raw_text :: string
  embedding :: json

text \<open>\<open>CompanySchema\<close>; its fields carry the prefix \<open>c_\<close>.\<close>

record company =
  c_name :: string
  c_description :: string
  c_services :: "string list"
  c_capabilities :: "string list"
  c_expertise :: "string list"
  c_embedding :: json

text \<open>\<open>RecommendationSchema\<close>.\<close>

record recommendation =
  tender_id :: string
  tender_title :: string
  similarity_score :: real
  tender_details :: tender

text \<open>
  The tender store is the list that \<open>pickle.load\<close> returned. Python does not check what
  the file held, so an element is either a \<open>TenderSchema\<close> object or some other object,
  on which the attribute access \<open>tender.id\<close> raises \<open>AttributeError\<close>.
\<close>

datatype stored = Tender tender | NotTender

section \<open>The vector index\<close>

text \<open>
  Modelled from the spec: the Vector Index is \<open>faiss.IndexFlatL2\<close>, a third-party library
  that is not part of the sources. Section 4.4 of the specification gives its contract:
  vectors of one fixed dimension, appended in order, a dimension mismatch is a hard
  error, and \<open>search\<close> returns the \<open>k\<close> nearest neighbours by ascending L2 distance, all of
  them when the index holds fewer than \<open>k\<close>. The flat index reports squared distances;
  equal distances are kept in ordinal order here.
\<close>

record index =
  d :: nat
  vectors :: "vec list"

definition IndexFlatL2 :: "nat \<Rightarrow> index" where
  "IndexFlatL2 n = \<lparr>d = n, vectors = []\<rparr>"

definition ntotal :: "index \<Rightarrow> nat" where
  "ntotal ix = length (vectors ix)"

definition add :: "index \<Rightarrow> vec list \<Rightarrow> exn + index" where
  "add ix xs =
     (if list_all (\<lambda>x. length x = d ix) xs
      then Inr (ix\<lparr>vectors := vectors ix @ xs\<rparr>)
      else Inl AssertionError)"

definition l2sq :: "vec \<Rightarrow> vec \<Rightarrow> real" where
  "l2sq q v = sum_list (map (\<lambda>(a, b). (a - b) * (a - b)) (zip q v))"

definition search :: "index \<Rightarrow> vec \<Rightarrow> nat \<Rightarrow> exn + (real \<times> int) list" where
  "search ix q k =
     (if length q \<noteq> d ix then Inl AssertionError
      else Inr (take k (sort_key fst
             (map (\<lambda>i. (l2sq q (vectors ix ! i), int i)) [0..<ntotal ix]))))"

section \<open>NumPy conversions\<close>

text \<open>
  \<open>np.array(x).astype('float32')\<close> on a list of embeddings gives a matrix when every
  embedding is a list of numbers and all have one length; otherwise NumPy raises, or it
  builds an array that is not a matrix and the index rejects it. Both are an exception
  at the caller. (NumPy would coerce numeric strings; a service that answers with those
  is outside this model.)
\<close>

fun as_num :: "json \<Rightarrow> real option" where
  "as_num (JNum x) = Some x"
| "as_num _ = None"

fun as_vec :: "json \<Rightarrow> vec option" where
  "as_vec (JArr xs) =
     (if list_all (\<lambda>x. as_num x \<noteq> None) xs then Some (map (\<lambda>x. the (as_num x)) xs) else None)"
| "as_vec _ = None"

definition np_array :: "json list \<Rightarrow> exn + vec list" where
  "np_array es =
     (if list_all (\<lambda>e. as_vec e \<noteq> None) es
         \<and> list_all (\<lambda>a. list_all (\<lambda>b. length (the (as_vec a)) = length (the (as_vec b))) es) es
      then Inr (map (\<lambda>e. the (as_vec e)) es)
      else Inl ValueError)"

section \<open>The matching engine\<close>

text \<open>
  \<open>similarity_score = max(0, min(100, (1.0 - distance/10) * 100))\<close> of
  \<open>CompanyScraperAgent._find_matching_tenders\<close>.
\<close>

definition similarity :: "real \<Rightarrow> real" where
  "similarity distance = max 0 (min 100 ((1 - distance / 10) * 100))"

text \<open>
  \<open>self.tenders[idx]\<close>. Python reads position \<open>len + idx\<close> for a negative \<open>idx\<close> and
  raises \<open>IndexError\<close> outside \<open>-len \<le> idx < len\<close>.
\<close>

definition py_index :: "'a list \<Rightarrow> int \<Rightarrow> exn + 'a" where
  "py_index xs i =
     (if 0 \<le> i \<and> i < int (length xs) then Inr (xs ! nat i)
      else if i < 0 \<and> - int (length xs) \<le> i then Inr (xs ! nat (int (length xs) + i))
      else Inl IndexError)"

text \<open>
  The \<open>for\<close> loop of \<open>_find_matching_tenders\<close> over the neighbours that the index
  returned, with the list \<open>recommendations\<close> as accumulator. \<open>Inl\<close> is an exception
  raised in the loop body; it carries the exception and the recommendations that had
  been appended when it was raised. \<open>Inr\<close> is the list after the last iteration.
\<close>

fun score_neighbours ::
  "stored list \<Rightarrow> (real \<times> int) list \<Rightarrow> recommendation list
     \<Rightarrow> (exn \<times> recommendation list) + recommendation list" where
  "score_neighbours tenders [] recommendations = Inr recommendations"
| "score_neighbours tenders ((distance, idx) # rest) recommendations =
     (if idx < int (length tenders) then
        (case py_index tenders idx of
           Inl e \<Rightarrow> Inl (e, recommendations)
         | Inr NotTender \<Rightarrow> Inl (AttributeError, recommendations)
         | Inr (Tender t) \<Rightarrow>
             score_neighbours tenders rest
               (recommendations @
                 [\<lparr>tender_id = id_t t, tender_title = title t,
                   similarity_score = similarity distance, tender_details = t\<rparr>]))
      else score_neighbours tenders rest recommendations)"

text \<open>
  \<open>recommendations.sort(key=lambda x: x.similarity_score, reverse=True)\<close>: Python's sort
  is stable, also with \<open>reverse=True\<close>, so it is the stable ascending sort by the negated
  score.
\<close>

definition sort_recommendations :: "recommendation list \<Rightarrow> recommendation list" where
  "sort_recommendations recs = sort_key (\<lambda>x. - similarity_score x) recs"

text \<open>
  The agent holds \<open>self.index\<close> (\<open>None\<close> when no index was loaded) and \<open>self.tenders\<close>.
\<close>

record agent =
  index_of :: "index option"
  tenders_of :: "stored list"

text \<open>
  \<open>_find_matching_tenders(company_info, top_k)\<close>. Every exception raised inside the
  \<open>try\<close> block (by the conversion of the query, by the search, or in the loop) ends in
  the handler, which returns the empty list.
\<close>

definition find_matching_tenders :: "agent \<Rightarrow> company \<Rightarrow> nat \<Rightarrow> recommendation list" where
  "find_matching_tenders self company_info top_k =
     (case index_of self of
        None \<Rightarrow> []
      | Some ix \<Rightarrow>
          if tenders_of self = [] \<or> ntotal ix = 0 then []
          else
            (case np_array [c_embedding company_info] of
               Inl e \<Rightarrow> []
             | Inr query_vector \<Rightarrow>
                 (case search ix (hd query_vector) (min top_k (ntotal ix)) of
                    Inl e \<Rightarrow> []
                  | Inr neighbours \<Rightarrow>
                      (case score_neighbours (tenders_of self) neighbours [] of
                         Inl e \<Rightarrow> []
                       | Inr recommendations \<Rightarrow> sort_recommendations recommendations))))"

section \<open>The embedding service client\<close>

text \<open>
  What \<open>requests.post\<close> to the embedding service can give: the call raises, or it returns
  a response with a status code and a body. \<open>response.json()\<close> raises on a body that is
  not JSON. A JSON object is the list of the items of the parsed dictionary.
\<close>

datatype body = NotJson | Json json

datatype http = Raises exn | Response nat body

definition zeros :: "nat \<Rightarrow> json" where
  "zeros n = JArr (replicate n (JNum 0))"

text \<open>
  \<open>result.get("embedding", default)\<close> after \<open>result = response.json()\<close>: the value under
  the key when \<open>result\<close> is a dictionary that has it, the default when it is a
  dictionary without the key, and an exception when the body is not JSON or the JSON
  value is not a dictionary. Every exception ends in the handler of \<open>get_embedding\<close>,
  which returns the default as well.
\<close>

fun embedding_of_body :: "body \<Rightarrow> json \<Rightarrow> json" where
  "embedding_of_body (Json (JObj items)) fallback =
     (case map_of items ''embedding'' of Some v \<Rightarrow> v | None \<Rightarrow> fallback)"
| "embedding_of_body _ fallback = fallback"

text \<open>
  \<open>TenderScraperAgent.get_embedding\<close>, given the outcome of its request. The fallback
  has \<open>VECTOR_DIMENSION\<close> zeros, a constant that \<open>utils/config.py\<close> reads from the
  environment (384 when the variable is not set).
\<close>

fun get_embedding_tender :: "nat \<Rightarrow> http \<Rightarrow> json" where
  "get_embedding_tender VECTOR_DIMENSION (Raises e) = zeros VECTOR_DIMENSION"
| "get_embedding_tender VECTOR_DIMENSION (Response status_code b) =
     (if status_code \<noteq> 200 then zeros VECTOR_DIMENSION
      else embedding_of_body b (zeros VECTOR_DIMENSION))"

text \<open>
  \<open>CompanyScraperAgent.get_embedding\<close>: the same function with the literal 384 in each of
  its three fallbacks.
\<close>

fun get_embedding_company :: "http \<Rightarrow> json" where
  "get_embedding_company (Raises e) = zeros 384"
| "get_embedding_company (Response status_code b) =
     (if status_code \<noteq> 200 then zeros 384 else embedding_of_body b (zeros 384))"

section \<open>The external representation\<close>

text \<open>
  \<open>BaseModel.model_dump(exclude=s)\<close> with a set \<open>s\<close> of strings: the dictionary of the
  fields of the model, nested models dumped in turn, without the fields of this model
  whose name is in \<open>s\<close>. A string in \<open>s\<close> that names no field of the model excludes
  nothing; a nested exclusion is written as a dictionary, not as a dotted path.
\<close>

definition dump_str :: "string option \<Rightarrow> json" where
  "dump_str x = (case x of None \<Rightarrow> JNull | Some s \<Rightarrow> JStr s)"

definition dump_float :: "real option \<Rightarrow> json" where
  "dump_float x = (case x of None \<Rightarrow> JNull | Some a \<Rightarrow> JNum a)"

definition drop_fields :: "string list \<Rightarrow> (string \<times> json) list \<Rightarrow> (string \<times> json) list" where
  "drop_fields exclude items = filter (\<lambda>(k, v). k \<notin> set exclude) items"

definition tender_model_dump :: "string list \<Rightarrow> tender \<Rightarrow> json" where
  "tender_model_dump exclude t = JObj (drop_fields exclude
     [(''id'', JStr (id_t t)), (''title'', JStr (title t)),
      (''description'', JStr (description t)), (''amount'', dump_float (amount t)),
      (''deadline'', dump_str (deadline t)), (''source'', JStr (source t)),
      (''url'', JStr (url t)), (''category'', dump_str (category t)),
      (''department'', dump_str (department t)), (''location'', dump_str (location t)),
      (''publication_date'', dump_str (publication_date t)),
      (''raw_text'', JStr (raw_text t)), (''embedding'', embedding t)])"

definition company_model_dump :: "string list \<Rightarrow> company \<Rightarrow> json" where
  "company_model_dump exclude c = JObj (drop_fields exclude
     [(''name'', JStr (c_name c)), (''description'', JStr (c_description c)),
      (''services'', JArr (map JStr (c_services c))),
      (''capabilities'', JArr (map JStr (c_capabilities c))),
      (''expertise'', JArr (map JStr (c_expertise c))),
      (''embedding'', c_embedding c)])"

definition recommendation_model_dump :: "string list \<Rightarrow> recommendation \<Rightarrow> json" where
  "recommendation_model_dump exclude r = JObj (drop_fields exclude
     [(''tender_id'', JStr (tender_id r)), (''tender_title'', JStr (tender_title r)),
      (''similarity_score'', JNum (similarity_score r)),
      (''tender_details'', tender_model_dump [] (tender_details r))])"

text \<open>
  \<open>CompanyScraperAgent.process_company_profile\<close>. The extraction of the company from the
  profile text is done by a language model outside this development; its outcome is an
  argument: an exception with its message, or the \<open>CompanySchema\<close>. \<open>response\<close> is the
  outcome of the embedding request.
\<close>

definition process_company_profile :: "agent \<Rightarrow> (exn \<times> string) + company \<Rightarrow> http \<Rightarrow> json" where
  "process_company_profile self extracted response =
     (case extracted of
        Inl (e, msg) \<Rightarrow>
          JObj [(''status'', JStr ''error''),
                (''message'', JStr (''Error processing company profile: '' @ msg)),
                (''recommendations'', JArr [])]
      | Inr company_info \<Rightarrow>
          (let company_embedding = get_embedding_company response;
               company_info = company_info\<lparr>c_embedding := company_embedding\<rparr>;
               recommendations = find_matching_tenders self company_info 10
           in JObj [(''status'', JStr ''success''),
                    (''company_info'', company_model_dump [''embedding''] company_info),
                    (''recommendations'',
                       JArr (map (recommendation_model_dump [''tender_details.embedding''])
                               recommendations))]))"

text \<open>Reading a key of a dumped dictionary, \<open>x[k]\<close>, and an element of a dumped list.\<close>

fun get_key :: "string \<Rightarrow> json \<Rightarrow> json option" where
  "get_key k (JObj items) = map_of items k"
| "get_key k _ = None"

fun elements :: "json \<Rightarrow> json list" where
  "elements (JArr xs) = xs"
| "elements _ = []"

fun get_path :: "string list \<Rightarrow> json \<Rightarrow> json option" where
  "get_path [] j = Some j"
| "get_path (k # ks) j = (case get_key k j of None \<Rightarrow> None | Some v \<Rightarrow> get_path ks v)"

section \<open>The amount extractor\<close>

text \<open>
  \<open>FirecrawlWrapper._extract_amount\<close> of \<open>utils/firecrawl_wrapper.py\<close>. A Python string is a
  list of Unicode code points, so that the rupee sign (code point 8377) is one
  character. The character classes \<open>\d\<close> and \<open>\s\<close>, the case mapping of \<open>str.lower\<close> and the
  case-insensitive comparison of \<open>re.IGNORECASE\<close> are those of ASCII: Python's Unicode
  tables for other digits, spaces and letters are not modelled.
\<close>

type_synonym ustr = "nat list"

definition ascii :: "string \<Rightarrow> ustr" where
  "ascii s = map of_char s"

text \<open>\<open>text.lower()\<close> and the substring test \<open>sub in text\<close>.\<close>

definition lower_cp :: "nat \<Rightarrow> nat" where
  "lower_cp c = (if 65 \<le> c \<and> c \<le> 90 then c + 32 else c)"

definition py_lower :: "ustr \<Rightarrow> ustr" where
  "py_lower s = map lower_cp s"

fun starts_with :: "ustr \<Rightarrow> ustr \<Rightarrow> bool" where
  "starts_with [] s = True"
| "starts_with (x # xs) [] = False"
| "starts_with (x # xs) (y # ys) = (x = y \<and> starts_with xs ys)"

fun py_in :: "ustr \<Rightarrow> ustr \<Rightarrow> bool" where
  "py_in sub [] = (sub = [])"
| "py_in sub (y # ys) = (starts_with sub (y # ys) \<or> py_in sub ys)"

text \<open>The classes \<open>\d\<close> and \<open>\s\<close> of a \<open>str\<close> pattern, on ASCII.\<close>

definition is_digit :: "nat \<Rightarrow> bool" where
  "is_digit c = (48 \<le> c \<and> c \<le> 57)"

definition is_space :: "nat \<Rightarrow> bool" where
  "is_space c = ((9 \<le> c \<and> c \<le> 13) \<or> (28 \<le> c \<and> c \<le> 32))"

text \<open>
  The regular expressions that the two patterns are built from: the empty expression,
  one character of a class, sequence, alternation \<open>a|b\<close>, the greedy option \<open>a?\<close>, the
  greedy repetition \<open>c*\<close> of a character class, and the capturing group.
\<close>

datatype rx =
    Eps
  | Cls "nat \<Rightarrow> bool"
  | Seq rx rx
  | Alt rx rx
  | Opt rx
  | Star "nat \<Rightarrow> bool"
  | Grp rx

text \<open>
  The backtracking matcher of \<open>re\<close>. \<open>rx_match r (s, g)\<close> lists, in the order in which
  backtracking tries them, the ways in which \<open>r\<close> matches a prefix of \<open>s\<close>: each is the
  rest of the text with the text captured by the group (\<open>g\<close> before the group has
  matched). A greedy repetition tries the longest run first and gives characters back
  one by one; an alternation tries its left branch first; an option tries to match
  before it tries to skip.
\<close>

fun runs :: "(nat \<Rightarrow> bool) \<Rightarrow> ustr \<Rightarrow> ustr list" where
  "runs p [] = [[]]"
| "runs p (c # cs) = (if p c then runs p cs @ [c # cs] else [c # cs])"

fun rx_match :: "rx \<Rightarrow> ustr \<times> ustr \<Rightarrow> (ustr \<times> ustr) list" where
  "rx_match Eps st = [st]"
| "rx_match (Cls p) (s, g) = (case s of [] \<Rightarrow> [] | c # cs \<Rightarrow> if p c then [(cs, g)] else [])"
| "rx_match (Seq a b) st = concat (map (rx_match b) (rx_match a st))"
| "rx_match (Alt a b) st = rx_match a st @ rx_match b st"
| "rx_match (Opt a) st = rx_match a st @ [st]"
| "rx_match (Star p) (s, g) = map (\<lambda>r. (r, g)) (runs p s)"
| "rx_match (Grp a) (s, g) =
     map (\<lambda>(r, _). (r, take (length s - length r) s)) (rx_match a (s, g))"

text \<open>
  \<open>re.search(pattern, text).group(1)\<close>: the first way of matching at the leftmost
  position where the pattern matches; \<open>None\<close> when it matches nowhere. The group takes
  part in every match of the two patterns, so \<open>group(1)\<close> is a string.
\<close>

fun re_search :: "rx \<Rightarrow> ustr \<Rightarrow> ustr option" where
  "re_search r [] = (case rx_match r ([], []) of [] \<Rightarrow> None | (rest, g) # _ \<Rightarrow> Some g)"
| "re_search r (c # cs) =
     (case rx_match r (c # cs, []) of [] \<Rightarrow> re_search r cs | (rest, g) # _ \<Rightarrow> Some g)"

text \<open>A literal character and a literal string under \<open>re.IGNORECASE\<close>, and \<open>c+\<close>.\<close>

definition ci :: "nat \<Rightarrow> rx" where
  "ci c = Cls (\<lambda>x. lower_cp x = lower_cp c)"

definition lit :: "string \<Rightarrow> rx" where
  "lit s = foldr (\<lambda>c r. Seq (ci (of_char c)) r) s Eps"

definition plus_of :: "(nat \<Rightarrow> bool) \<Rightarrow> rx" where
  "plus_of p = Seq (Cls p) (Star p)"

text \<open>
  The two patterns, with the common parts \<open>(?:lakhs?|crores?|cr)\<close> and
  \<open>[\d,]+(?:\.\d+)?\<close> named:
  \<^verbatim>\<open>(?:Rs\.?|<rupee sign>|INR)\s*([\d,]+(?:\.\d+)?(?:\s*(?:lakhs?|crores?|cr))?)\<close> and
  \<^verbatim>\<open>([\d,]+(?:\.\d+)?)\s*(?:lakhs?|crores?|cr)\<close>.
\<close>

definition magnitude :: rx where
  "magnitude = Alt (Seq (lit ''lakh'') (Opt (lit ''s'')))
                 (Alt (Seq (lit ''crore'') (Opt (lit ''s''))) (lit ''cr''))"

definition number :: rx where
  "number = Seq (plus_of (\<lambda>c. is_digit c \<or> c = 44)) (Opt (Seq (lit ''.'') (plus_of is_digit)))"

definition pattern1 :: rx where
  "pattern1 = Seq (Alt (Seq (lit ''Rs'') (Opt (lit ''.''))) (Alt (ci 8377) (lit ''INR'')))
               (Seq (Star is_space)
                 (Grp (Seq number (Opt (Seq (Star is_space) magnitude)))))"

definition pattern2 :: rx where
  "pattern2 = Seq (Grp number) (Seq (Star is_space) magnitude)"

definition amount_patterns :: "rx list" where
  "amount_patterns = [pattern1, pattern2]"

text \<open>
  \<open>float(amount_str)\<close>, \<open>None\<close> for \<open>ValueError\<close>: surrounding white space is stripped, and
  the rest is digits, digits with a fraction, or a fraction alone. The value is the
  decimal number, without rounding to binary64. Signs, exponents, underscores and the
  words \<open>inf\<close> and \<open>nan\<close> are left out: the captured text consists of characters of
  \<open>[\d,]\<close>, a dot, white space and the letters of a magnitude word, and no digit in it is
  followed by the letter e.
\<close>

definition is_c_space :: "nat \<Rightarrow> bool" where
  "is_c_space c = ((9 \<le> c \<and> c \<le> 13) \<or> c = 32)"

definition digits_value :: "ustr \<Rightarrow> nat" where
  "digits_value ds = foldl (\<lambda>a c. 10 * a + (c - 48)) 0 ds"

definition py_float :: "ustr \<Rightarrow> real option" where
  "py_float s =
     (let t = rev (dropWhile is_c_space (rev (dropWhile is_c_space s)));
          ip = takeWhile is_digit t;
          r = dropWhile is_digit t
      in case r of
           [] \<Rightarrow> if ip = [] then None else Some (of_nat (digits_value ip))
         | c # fp \<Rightarrow>
             if c = 46 \<and> list_all is_digit fp \<and> (ip \<noteq> [] \<or> fp \<noteq> [])
             then Some (of_nat (digits_value ip) + of_nat (digits_value fp) / 10 ^ length fp)
             else None)"

text \<open>
  The loop \<open>for pattern in amount_patterns\<close>. When the pattern does not match, or
  \<open>float\<close> raises \<open>ValueError\<close> (the handler is \<open>pass\<close>), the loop goes on with the next
  pattern; after the last pattern the function returns \<open>None\<close>.
\<close>

fun try_patterns :: "rx list \<Rightarrow> ustr \<Rightarrow> real option" where
  "try_patterns [] text = None"
| "try_patterns (pattern # rest) text =
     (case re_search pattern text of
        None \<Rightarrow> try_patterns rest text
      | Some g \<Rightarrow>
          (let amount_str = filter (\<lambda>c. c \<noteq> 44) g
           in case py_float amount_str of
                None \<Rightarrow> try_patterns rest text
              | Some x \<Rightarrow>
                  if py_in (ascii ''lakh'') (py_lower text) then Some (x * 100000)
                  else if py_in (ascii ''cr'') (py_lower text)
                          \<or> py_in (ascii ''crore'') (py_lower text)
                  then Some (x * 10000000)
                  else Some x))"

definition extract_amount :: "ustr \<Rightarrow> real option" where
  "extract_amount text = try_patterns amount_patterns text"

text \<open>
  The multiplier rule in the words of the specification: 100,000 when the lower-cased
  text contains "lakh", else 10,000,000 when it contains "cr" or "crore", else the
  literal value is used as it is.
\<close>

definition spec_multiplier :: "ustr \<Rightarrow> real" where
  "spec_multiplier text =
     (if py_in (ascii ''lakh'') (py_lower text) then 100000
      else if py_in (ascii ''cr'') (py_lower text) \<or> py_in (ascii ''crore'') (py_lower text)
      then 10000000
      else 1)"

text \<open>The literal of a pattern on a text, parsed after its commas are removed.\<close>

definition parsed_literal :: "rx \<Rightarrow> ustr \<Rightarrow> real option" where
  "parsed_literal pattern text =
     (case re_search pattern text of
        None \<Rightarrow> None
      | Some g \<Rightarrow> py_float (filter (\<lambda>c. c \<noteq> 44) g))"


section \<open>The tender scraper agent: index and store\<close>

text \<open>
  The two files under \<open>VECTOR_DB_PATH\<close>. A file is absent, or reading it raises (it is
  corrupt), or it holds what was written: an index for \<open>faiss_index.bin\<close>, the pickled
  list of tenders for \<open>tenders.pkl\<close>.
\<close>

datatype 'a on_disk = Absent | Corrupt | Good 'a

record disk =
  index_file :: "index on_disk"
  tenders_file :: "stored list on_disk"

text \<open>
  A write succeeds, or it raises and leaves the file as it was, or it raises and leaves
  a file that cannot be read. \<open>_save_index_and_tenders\<close> logs the exception and goes on.
\<close>

datatype write_outcome = Written | FailedUntouched | FailedCorrupt

fun write_file :: "write_outcome \<Rightarrow> 'a \<Rightarrow> 'a on_disk \<Rightarrow> 'a on_disk" where
  "write_file Written x old = Good x"
| "write_file FailedUntouched x old = old"
| "write_file FailedCorrupt x old = Corrupt"

text \<open>
  What one scrape-and-store cycle meets outside the agent: whether the cycle runs on a
  newly constructed \<open>TenderScraperAgent\<close> (the node \<open>scrape_tenders\<close> of
  \<open>graphs/main_graph.py\<close> constructs one for every request; \<open>__init__\<close> sets
  \<open>self.index = None\<close> and \<open>self.tenders = []\<close>), the answer of the embedding service to
  the \<open>i\<close>-th request of the cycle with a given prompt, and the outcomes of the two
  writes.
\<close>

record cycle =
  new_agent :: bool
  ollama :: "nat \<Rightarrow> string \<Rightarrow> http"
  index_write :: write_outcome
  tenders_write :: write_outcome

text \<open>
  \<open>TenderScraperAgent._load_index_and_tenders\<close>: a file that is absent leaves the
  attribute as it is; a file that cannot be read sets it to \<open>[]\<close>, or to \<open>None\<close>.
\<close>

definition load_index_and_tenders :: "agent \<Rightarrow> disk \<Rightarrow> agent" where
  "load_index_and_tenders self dk =
     \<lparr>index_of = (case index_file dk of
                    Absent \<Rightarrow> index_of self | Corrupt \<Rightarrow> None | Good ix \<Rightarrow> Some ix),
      tenders_of = (case tenders_file dk of
                      Absent \<Rightarrow> tenders_of self | Corrupt \<Rightarrow> [] | Good ts \<Rightarrow> ts)\<rparr>"

text \<open>
  The \<open>for tender in tenders\<close> loop of \<open>_process_and_store_tenders\<close>, with its two lists
  \<open>new_tenders\<close> and \<open>embeddings\<close> as accumulators and the number of the request.
  Nothing in the body raises: \<open>get_embedding\<close> and \<open>_save_raw_tender\<close> catch every
  exception themselves, so the handler of the loop is never entered. The raw JSON file
  that \<open>_save_raw_tender\<close> writes is never read back and is left out.
\<close>

fun embed_loop ::
  "nat \<Rightarrow> (nat \<Rightarrow> string \<Rightarrow> http) \<Rightarrow> nat \<Rightarrow> tender list
     \<Rightarrow> tender list \<times> json list \<Rightarrow> tender list \<times> json list" where
  "embed_loop VECTOR_DIMENSION svc i [] (new_tenders, embeddings) = (new_tenders, embeddings)"
| "embed_loop VECTOR_DIMENSION svc i (t # rest) (new_tenders, embeddings) =
     (let text_for_embedding = title t @ '' '' @ description t;
          e = get_embedding_tender VECTOR_DIMENSION (svc i text_for_embedding);
          t' = t\<lparr>embedding := e\<rparr>
      in embed_loop VECTOR_DIMENSION svc (Suc i) rest (new_tenders @ [t'], embeddings @ [e]))"

text \<open>
  \<open>_update_index\<close>. The exception of \<open>np.array\<close> or of \<open>index.add\<close> leaves the method;
  the agent is returned as it is at that moment (a new index has been assigned to
  \<open>self.index\<close> when \<open>add\<close> raises).
\<close>

definition update_index :: "nat \<Rightarrow> agent \<Rightarrow> json list \<Rightarrow> exn option \<times> agent" where
  "update_index VECTOR_DIMENSION self new_embeddings =
     (if new_embeddings = [] then (None, self)
      else
        (case np_array new_embeddings of
           Inl e \<Rightarrow> (Some e, self)
         | Inr embeddings_array \<Rightarrow>
             (let ix = (case index_of self of
                          None \<Rightarrow> IndexFlatL2 VECTOR_DIMENSION | Some ix \<Rightarrow> ix)
              in case add ix embeddings_array of
                   Inl e \<Rightarrow> (Some e, self\<lparr>index_of := Some ix\<rparr>)
                 | Inr ix' \<Rightarrow> (None, self\<lparr>index_of := Some ix'\<rparr>))))"

text \<open>\<open>_save_index_and_tenders\<close>: the index is written when there is one, then the tenders.\<close>

definition save_index_and_tenders :: "cycle \<Rightarrow> agent \<Rightarrow> disk \<Rightarrow> disk" where
  "save_index_and_tenders c self dk =
     \<lparr>index_file = (case index_of self of
                      None \<Rightarrow> index_file dk
                    | Some ix \<Rightarrow> write_file (index_write c) ix (index_file dk)),
      tenders_file = write_file (tenders_write c) (tenders_of self) (tenders_file dk)\<rparr>"

text \<open>
  \<open>_process_and_store_tenders\<close>, one append operation: the exception that left it
  (\<open>None\<close> when it completed), the agent and the files afterwards.
\<close>

definition process_and_store_tenders ::
  "nat \<Rightarrow> cycle \<Rightarrow> agent \<times> disk \<Rightarrow> tender list \<Rightarrow> exn option \<times> agent \<times> disk" where
  "process_and_store_tenders VECTOR_DIMENSION c w tenders =
     (let self = load_index_and_tenders
                   (if new_agent c then \<lparr>index_of = None, tenders_of = []\<rparr> else fst w) (snd w);
          (new_tenders, embeddings) =
             embed_loop VECTOR_DIMENSION (ollama c) 0 tenders ([], [])
      in if new_tenders = [] then (None, self, snd w)
         else
           (case update_index VECTOR_DIMENSION
                   (self\<lparr>tenders_of := tenders_of self @ map Tender new_tenders\<rparr>) embeddings of
              (Some e, self') \<Rightarrow> (Some e, self', snd w)
            | (None, self') \<Rightarrow> (None, self', save_index_and_tenders c self' (snd w))))"

text \<open>
  A sequence of append operations, each with its cycle and its batch of scraped
  tenders: the state after the last one, \<open>None\<close> when one of them did not complete.
\<close>

fun run_cycles :: "nat \<Rightarrow> agent \<times> disk \<Rightarrow> (cycle \<times> tender list) list \<Rightarrow> (agent \<times> disk) option" where
  "run_cycles VECTOR_DIMENSION w [] = Some w"
| "run_cycles VECTOR_DIMENSION w ((c, tenders) # rest) =
     (case process_and_store_tenders VECTOR_DIMENSION c w tenders of
        (None, self', dk') \<Rightarrow> run_cycles VECTOR_DIMENSION (self', dk') rest
      | (Some e, self', dk') \<Rightarrow> None)"

text \<open>
  The alignment of index and store: the index holds as many vectors as the store holds
  tenders, and the vector at ordinal \<open>i\<close> is the embedding kept in the tender at
  position \<open>i\<close>. An agent without index is aligned when its store is empty;
  \<open>index_vectors\<close> are the vectors of its index, none when it has no index.
\<close>

definition index_vectors :: "agent \<Rightarrow> vec list" where
  "index_vectors self = (case index_of self of None \<Rightarrow> [] | Some ix \<Rightarrow> vectors ix)"

fun stored_vec :: "stored \<Rightarrow> vec option" where
  "stored_vec (Tender t) = as_vec (embedding t)"
| "stored_vec NotTender = None"

definition aligned :: "agent \<Rightarrow> bool" where
  "aligned self =
     (case index_of self of
        None \<Rightarrow> tenders_of self = []
      | Some ix \<Rightarrow> map stored_vec (tenders_of self) = map Some (vectors ix))"

text \<open>
  The files are consistent when both are absent, or both can be read and hold an
  aligned pair. The state is consistent when the agent is aligned and the files are
  consistent.
\<close>

fun files_consistent :: "index on_disk \<Rightarrow> stored list on_disk \<Rightarrow> bool" where
  "files_consistent Absent Absent = True"
| "files_consistent (Good ix) (Good ts) = aligned \<lparr>index_of = Some ix, tenders_of = ts\<rparr>"
| "files_consistent _ _ = False"

definition consistent :: "agent \<times> disk \<Rightarrow> bool" where
  "consistent w = (aligned (fst w) \<and> files_consistent (index_file (snd w)) (tenders_file (snd w)))"

text \<open>A cycle in which both writes succeed.\<close>

definition writes_succeed :: "cycle \<Rightarrow> bool" where
  "writes_succeed c = (index_write c = Written \<and> tenders_write c = Written)"

text \<open>
  The tenders of a batch with the embedding that the service gave for the prompt
  \<open>title + " " + description\<close> of each, numbered from request \<open>i\<close>.
\<close>

fun embedded :: "nat \<Rightarrow> (nat \<Rightarrow> string \<Rightarrow> http) \<Rightarrow> nat \<Rightarrow> tender list \<Rightarrow> tender list" where
  "embedded VECTOR_DIMENSION svc i [] = []"
| "embedded VECTOR_DIMENSION svc i (t # rest) =
     t\<lparr>embedding := get_embedding_tender VECTOR_DIMENSION
                        (svc i (title t @ '' '' @ description t))\<rparr>
       # embedded VECTOR_DIMENSION svc (Suc i) rest"

section \<open>Sample data\<close>

text \<open>
  Concrete inputs on which the theorems below are instantiated: tenders whose embedding
  has one component, an index of dimension one over three vectors, and a company.
\<close>

definition sample_tender :: "string \<Rightarrow> json \<Rightarrow> tender" where
  "sample_tender i e =
     \<lparr>id_t = i, title = ''Road works'', description = ''Resurfacing of a road'',
      amount = None, deadline = None, source = ''Tamil Nadu Tenders'',
      url = ''https://tntenders.gov.in/nicgep/app'', category = None, department = None,
      location = None, publication_date = None, raw_text = ''<tr></tr>'', embedding = e\<rparr>"

definition sample_index :: index where
  "sample_index = \<lparr>d = 1, vectors = [[1], [4], [5]]\<rparr>"

definition sample_store :: "stored list" where
  "sample_store =
     [Tender (sample_tender ''a'' (JArr [JNum 1])),
      Tender (sample_tender ''b'' (JArr [JNum 4])),
      Tender (sample_tender ''c'' (JArr [JNum 5]))]"

definition broken_store :: "stored list" where
  "broken_store =
     [Tender (sample_tender ''a'' (JArr [JNum 1])),
      NotTender,
      Tender (sample_tender ''c'' (JArr [JNum 5]))]"

definition sample_company :: company where
  "sample_company =
     \<lparr>c_name = ''Acme'', c_description = ''Road construction'', c_services = [],
      c_capabilities = [], c_expertise = [], c_embedding = JArr [JNum 0]\<rparr>"

definition ollama_one :: "nat \<Rightarrow> string \<Rightarrow> http" where
  "ollama_one i prompt = Response 200 (Json (JObj [(''embedding'', JArr [JNum 1])]))"

definition first_cycle :: cycle where
  "first_cycle = \<lparr>new_agent = True, ollama = ollama_one,
                   index_write = FailedUntouched, tenders_write = Written\<rparr>"

definition good_cycle :: cycle where
  "good_cycle = \<lparr>new_agent = True, ollama = ollama_one,
                  index_write = Written, tenders_write = Written\<rparr>"

definition empty_state :: "agent \<times> disk" where
  "empty_state = (\<lparr>index_of = None, tenders_of = []\<rparr>,
                  \<lparr>index_file = Absent, tenders_file = Absent\<rparr>)"

definition sample_agent :: agent where
  "sample_agent = \<lparr>index_of = Some sample_index, tenders_of = sample_store\<rparr>"

definition broken_agent :: agent where
  "broken_agent = \<lparr>index_of = Some sample_index, tenders_of = broken_store\<rparr>"

definition sample_recommendation :: "string \<Rightarrow> real \<Rightarrow> real \<Rightarrow> recommendation" where
  "sample_recommendation i x score =
     \<lparr>tender_id = i, tender_title = ''Road works'', similarity_score = score,
      tender_details = sample_tender i (JArr [JNum x])\<rparr>"

section \<open>Facts about the sample data\<close>

lemma np_array_sample: "np_array [JArr [JNum 0]] = Inr [[0]]"
  by (simp add: np_array_def)

lemma ntotal_sample: "ntotal sample_index = 3"
  by (simp add: ntotal_def sample_index_def)

lemma search_sample: "search sample_index [0] 3 = Inr [(1, 0), (16, 1), (25, 2)]"
  by (simp add: search_def sample_index_def ntotal_def l2sq_def upt_rec)

lemma score_sample:
  "score_neighbours sample_store [(1, 0), (16, 1), (25, 2)] [] =
     Inr [sample_recommendation ''a'' 1 90, sample_recommendation ''b'' 4 0,
          sample_recommendation ''c'' 5 0]"
  by (simp add: sample_store_def py_index_def similarity_def sample_recommendation_def
        sample_tender_def)

lemma score_broken:
  "score_neighbours broken_store [(1, 0), (16, 1), (25, 2)] [] =
     Inl (AttributeError, [sample_recommendation ''a'' 1 90])"
  by (simp add: broken_store_def py_index_def similarity_def sample_recommendation_def
        sample_tender_def)

lemma sort_sample:
  "sort_recommendations
     [sample_recommendation ''a'' 1 90, sample_recommendation ''b'' 4 0,
      sample_recommendation ''c'' 5 0] =
     [sample_recommendation ''a'' 1 90, sample_recommendation ''b'' 4 0,
      sample_recommendation ''c'' 5 0]"
  by (simp add: sort_recommendations_def sample_recommendation_def)

lemma find_sample:
  "find_matching_tenders sample_agent sample_company 10 =
     [sample_recommendation ''a'' 1 90, sample_recommendation ''b'' 4 0,
      sample_recommendation ''c'' 5 0]"
proof -
  have "sample_store \<noteq> []" by (simp add: sample_store_def)
  then show ?thesis
    by (simp add: find_matching_tenders_def sample_agent_def sample_company_def
          np_array_sample ntotal_sample search_sample score_sample sort_sample
          del: score_neighbours.simps)
qed

lemma find_broken: "find_matching_tenders broken_agent sample_company 10 = []"
proof -
  have "broken_store \<noteq> []" by (simp add: broken_store_def)
  then show ?thesis
    by (simp add: find_matching_tenders_def broken_agent_def sample_company_def
          np_array_sample ntotal_sample search_sample score_broken
          del: score_neighbours.simps)
qed

section \<open>Facts about the sort, the loop and the search\<close>

lemma sorted_sort_recommendations:
  "sorted (rev (map similarity_score (sort_recommendations recs)))"
proof -
  have "sorted (map (\<lambda>x. - similarity_score x) (sort_recommendations recs))"
    unfolding sort_recommendations_def by (rule sorted_sort_key)
  then have "sorted (map uminus (map similarity_score (sort_recommendations recs)))"
    by (simp add: comp_def)
  then show ?thesis
    by (simp add: sorted_iff_nth_mono rev_nth)
qed

lemma stable_sort_recommendations:
  "filter (\<lambda>r. similarity_score r = s) (sort_recommendations recs) =
     filter (\<lambda>r. similarity_score r = s) recs"
  using sort_key_stable [of "\<lambda>x. - similarity_score x" "- s" recs]
  by (simp add: sort_recommendations_def)

lemma length_sort_recommendations: "length (sort_recommendations recs) = length recs"
  by (simp add: sort_recommendations_def)

lemma score_neighbours_length:
  "score_neighbours ts nbrs acc = Inr recs \<Longrightarrow>
     length recs \<le> length acc + length (filter (\<lambda>i. i < int (length ts)) (map snd nbrs))"
proof (induction nbrs arbitrary: acc)
  case Nil
  then show ?case by simp
next
  case (Cons p nbrs)
  obtain x i where p: "p = (x, i)" by (cases p)
  show ?case
  proof (cases "i < int (length ts)")
    case False
    with Cons p show ?thesis by simp
  next
    case True
    with Cons.prems p obtain t where
      r: "score_neighbours ts nbrs
            (acc @ [\<lparr>tender_id = id_t t, tender_title = title t,
                     similarity_score = similarity x, tender_details = t\<rparr>]) = Inr recs"
      by (auto split: sum.splits stored.splits)
    from Cons.IH [OF r] True p show ?thesis by simp
  qed
qed

lemma search_labels:
  assumes "search ix q k = Inr nbrs"
  shows "length nbrs = min k (ntotal ix) \<and> distinct (map snd nbrs)
           \<and> (\<forall>i \<in> set (map snd nbrs). 0 \<le> i)"
proof -
  let ?xs = "map (\<lambda>i. (l2sq q (vectors ix ! i), int i)) [0..<ntotal ix]"
  from assms have n: "nbrs = take k (sort_key fst ?xs)"
    by (simp add: search_def split: if_splits)
  have len: "length (map snd (sort_key fst ?xs)) = length (map snd ?xs)" by simp
  have st: "set (map snd (sort_key fst ?xs)) = set (map snd ?xs)"
    by (simp only: set_map set_sort)
  have "map snd ?xs = map int [0..<ntotal ix]" by (simp add: comp_def)
  then have dxs: "distinct (map snd ?xs)" by (simp add: distinct_map inj_on_def)
  then have "card (set (map snd ?xs)) = length (map snd ?xs)" by (rule distinct_card)
  then have "card (set (map snd (sort_key fst ?xs))) = length (map snd (sort_key fst ?xs))"
    using len st by simp
  then have "distinct (map snd (sort_key fst ?xs))" by (rule card_distinct)
  then have d2: "distinct (map snd nbrs)" unfolding n by (simp add: take_map [symmetric])
  have "set (map snd nbrs) \<subseteq> set (map snd (sort_key fst ?xs))"
    unfolding n by (metis set_take_subset take_map)
  also have "\<dots> = set (map snd ?xs)" by (rule st)
  finally have s: "\<forall>i \<in> set (map snd nbrs). 0 \<le> i" by auto
  from n d2 s show ?thesis by simp
qed

lemma distinct_labels_below:
  assumes dl: "distinct (xs :: int list)" and p: "\<forall>i \<in> set xs. 0 \<le> i"
  shows "length (filter (\<lambda>i. i < int m) xs) \<le> m"
proof -
  let ?f = "filter (\<lambda>i. i < int m) xs"
  have "distinct ?f" using dl by simp
  then have "length ?f = card (set ?f)" by (metis distinct_card)
  also have "set ?f \<subseteq> int ` {0..<m}"
  proof
    fix x assume "x \<in> set ?f"
    then have "0 \<le> x" "x < int m" using p by auto
    then have "x = int (nat x)" "nat x < m" by auto
    then show "x \<in> int ` {0..<m}" by (metis atLeastLessThan_iff image_eqI zero_le)
  qed
  then have "card (set ?f) \<le> card (int ` {0..<m})" by (simp add: card_mono)
  also have "\<dots> \<le> m"
    by (metis card_image_le card_atLeastLessThan diff_zero finite_atLeastLessThan)
  finally show ?thesis .
qed

lemma find_matching_tenders_length:
  "length (find_matching_tenders self c k) \<le> min k (length (tenders_of self))"
proof (cases "index_of self")
  case None
  then show ?thesis by (simp add: find_matching_tenders_def)
next
  case (Some ix)
  show ?thesis
  proof (cases "tenders_of self = [] \<or> ntotal ix = 0")
    case True
    with Some show ?thesis by (auto simp: find_matching_tenders_def)
  next
    case False
    show ?thesis
    proof (cases "np_array [c_embedding c]")
      case (Inl e)
      with Some False show ?thesis by (simp add: find_matching_tenders_def)
    next
      case qv: (Inr query_vector)
      show ?thesis
      proof (cases "search ix (hd query_vector) (min k (ntotal ix))")
        case (Inl e)
        with Some False qv show ?thesis by (simp add: find_matching_tenders_def)
      next
        case nb: (Inr nbrs)
        show ?thesis
        proof (cases "score_neighbours (tenders_of self) nbrs []")
          case (Inl e)
          with Some False qv nb show ?thesis by (simp add: find_matching_tenders_def)
        next
          case (Inr recs)
          from search_labels [OF nb] have
            l: "length nbrs = min (min k (ntotal ix)) (ntotal ix)" and
            dl: "distinct (map snd nbrs)" and nn: "\<forall>i \<in> set (map snd nbrs). 0 \<le> i"
            by simp_all
          let ?f = "filter (\<lambda>i. i < int (length (tenders_of self))) (map snd nbrs)"
          from score_neighbours_length [OF Inr] have a: "length recs \<le> length ?f" by simp
          have "length ?f \<le> length (map snd nbrs)" by (rule length_filter_le)
          with l have b: "length ?f \<le> k" by simp
          from distinct_labels_below [OF dl nn]
          have c: "length ?f \<le> length (tenders_of self)" .
          from Some False qv nb Inr have
            "find_matching_tenders self c k = sort_recommendations recs"
            by (simp add: find_matching_tenders_def)
          with a b c show ?thesis by (simp add: length_sort_recommendations)
        qed
      qed
    qed
  qed
qed

section \<open>Similarity bound\<close>

text \<open>
  C5. For every distance \<open>d \<ge> 0\<close> the similarity computed by the matching engine is
  \<open>max 0 (min 100 ((1 - d/10) * 100))\<close>, it lies between 0 and 100, and the distances 0,
  10 and 20 give 100, 0 and 0.
\<close>

theorem similarity_bound:
  "0 \<le> dst \<Longrightarrow>
     similarity dst = max 0 (min 100 ((1 - dst / 10) * 100))
     \<and> 0 \<le> similarity dst \<and> similarity dst \<le> 100
     \<and> similarity 0 = 100 \<and> similarity 10 = 0 \<and> similarity 20 = 0"
  by (simp add: similarity_def)

theorem similarity_bound_witness:
  "(0::real) \<le> 5 \<and> similarity 5 = 50 \<and> 0 \<le> similarity 5 \<and> similarity 5 \<le> 100
     \<and> similarity 0 = 100 \<and> similarity 10 = 0 \<and> similarity 20 = 0"
  using similarity_bound [of 5] by (simp add: similarity_def)


section \<open>Matching preconditions\<close>

text \<open>
  C6. When the agent has no index, or its index holds no vector, or its tender store is
  empty, the matching engine returns the empty list of recommendations. The function
  returns a list in every case: no exception leaves it.
\<close>

theorem no_index_no_matches:
  "index_of self = None \<or> (\<exists>ix. index_of self = Some ix \<and> ntotal ix = 0)
     \<or> tenders_of self = [] \<Longrightarrow>
   find_matching_tenders self company_info top_k = []"
  by (auto simp: find_matching_tenders_def split: option.splits)

theorem no_index_no_matches_witness:
  "tenders_of \<lparr>index_of = Some sample_index, tenders_of = []\<rparr> = []
     \<and> find_matching_tenders \<lparr>index_of = Some sample_index, tenders_of = []\<rparr>
           sample_company 10 = []"
  using no_index_no_matches
    [of "\<lparr>index_of = Some sample_index, tenders_of = []\<rparr>" sample_company 10]
  by simp

section \<open>Exceptions while scoring\<close>

text \<open>
  C2, as stated, fails. On the store \<open>broken_store\<close> the loop builds the recommendation
  for the nearest tender and then raises on the second neighbour; the engine returns the
  empty list, not the recommendation that had been built.
\<close>

theorem partial_results_counterexample:
  "score_neighbours (tenders_of broken_agent) [(1, 0), (16, 1), (25, 2)] [] =
     Inl (AttributeError, [sample_recommendation ''a'' 1 90])
   \<and> find_matching_tenders broken_agent sample_company 10 \<noteq> [sample_recommendation ''a'' 1 90]"
proof -
  have stored: "tenders_of broken_agent = broken_store" by (simp add: broken_agent_def)
  have raised: "score_neighbours (tenders_of broken_agent) [(1, 0), (16, 1), (25, 2)] [] =
                  Inl (AttributeError, [sample_recommendation ''a'' 1 90])"
    unfolding stored by (rule score_broken)
  have returned: "find_matching_tenders broken_agent sample_company 10
                    \<noteq> [sample_recommendation ''a'' 1 90]"
    by (simp add: find_broken)
  show ?thesis by (rule conjI [OF raised returned])
qed

text \<open>
  C2, amended. When an exception is raised while the neighbours returned by the index
  are scored, the matching engine returns the empty list: the recommendations built
  before the failure are discarded.
\<close>

theorem exception_discards_results:
  assumes "index_of self = Some ix" and "tenders_of self \<noteq> []" and "ntotal ix \<noteq> 0"
    and "np_array [c_embedding company_info] = Inr query_vector"
    and "search ix (hd query_vector) (min top_k (ntotal ix)) = Inr neighbours"
    and "score_neighbours (tenders_of self) neighbours [] = Inl (e, built)"
  shows "find_matching_tenders self company_info top_k = []"
  using assms by (simp add: find_matching_tenders_def)

theorem exception_discards_results_witness:
  "index_of broken_agent = Some sample_index \<and> tenders_of broken_agent \<noteq> []
     \<and> ntotal sample_index \<noteq> 0
     \<and> np_array [c_embedding sample_company] = Inr [[0]]
     \<and> search sample_index (hd [[0]]) (min 10 (ntotal sample_index)) =
          Inr [(1, 0), (16, 1), (25, 2)]
     \<and> score_neighbours (tenders_of broken_agent) [(1, 0), (16, 1), (25, 2)] [] =
          Inl (AttributeError, [sample_recommendation ''a'' 1 90])
     \<and> find_matching_tenders broken_agent sample_company 10 = []"
proof -
  have 1: "index_of broken_agent = Some sample_index" by (simp add: broken_agent_def)
  have 2: "tenders_of broken_agent \<noteq> []" by (simp add: broken_agent_def broken_store_def)
  have 3: "ntotal sample_index \<noteq> 0" by (simp add: ntotal_sample)
  have 4: "np_array [c_embedding sample_company] = Inr [[0]]"
    by (simp add: sample_company_def np_array_sample)
  have 5: "search sample_index (hd [[0]]) (min 10 (ntotal sample_index)) =
             Inr [(1, 0), (16, 1), (25, 2)]"
    by (simp add: ntotal_sample search_sample)
  have "tenders_of broken_agent = broken_store" by (simp add: broken_agent_def)
  then have 6: "score_neighbours (tenders_of broken_agent) [(1, 0), (16, 1), (25, 2)] [] =
             Inl (AttributeError, [sample_recommendation ''a'' 1 90])"
    by (simp only: score_broken)
  from exception_discards_results [OF 1 2 3 4 5 6] 1 2 3 4 5 6 show ?thesis by blast
qed

section \<open>Sort contract\<close>

text \<open>
  C8. The list returned by the matching engine is sorted descending by
  \<open>similarity_score\<close>; and when the scoring loop has built the list \<open>recs\<close> in the order of
  the neighbours returned by the index, the recommendations of any one score stand in
  the result in the order they have in \<open>recs\<close>.
\<close>

theorem sort_contract:
  "sorted (rev (map similarity_score (find_matching_tenders self company_info top_k)))
   \<and> (index_of self = Some ix \<and> tenders_of self \<noteq> [] \<and> ntotal ix \<noteq> 0
        \<and> np_array [c_embedding company_info] = Inr query_vector
        \<and> search ix (hd query_vector) (min top_k (ntotal ix)) = Inr neighbours
        \<and> score_neighbours (tenders_of self) neighbours [] = Inr recs
      \<longrightarrow> filter (\<lambda>r. similarity_score r = s)
              (find_matching_tenders self company_info top_k) =
            filter (\<lambda>r. similarity_score r = s) recs)"
proof
  show "sorted (rev (map similarity_score (find_matching_tenders self company_info top_k)))"
    by (simp add: find_matching_tenders_def sorted_sort_recommendations
          split: option.splits sum.splits)
next
  show "index_of self = Some ix \<and> tenders_of self \<noteq> [] \<and> ntotal ix \<noteq> 0
        \<and> np_array [c_embedding company_info] = Inr query_vector
        \<and> search ix (hd query_vector) (min top_k (ntotal ix)) = Inr neighbours
        \<and> score_neighbours (tenders_of self) neighbours [] = Inr recs
      \<longrightarrow> filter (\<lambda>r. similarity_score r = s)
              (find_matching_tenders self company_info top_k) =
            filter (\<lambda>r. similarity_score r = s) recs"
    by (simp add: find_matching_tenders_def stable_sort_recommendations)
qed

theorem sort_contract_witness:
  "index_of sample_agent = Some sample_index \<and> tenders_of sample_agent \<noteq> []
     \<and> ntotal sample_index \<noteq> 0
     \<and> np_array [c_embedding sample_company] = Inr [[0]]
     \<and> search sample_index (hd [[0]]) (min 10 (ntotal sample_index)) =
          Inr [(1, 0), (16, 1), (25, 2)]
     \<and> score_neighbours (tenders_of sample_agent) [(1, 0), (16, 1), (25, 2)] [] =
          Inr [sample_recommendation ''a'' 1 90, sample_recommendation ''b'' 4 0,
               sample_recommendation ''c'' 5 0]
     \<and> sorted (rev (map similarity_score (find_matching_tenders sample_agent sample_company 10)))
     \<and> filter (\<lambda>r. similarity_score r = 0)
          (find_matching_tenders sample_agent sample_company 10) =
        [sample_recommendation ''b'' 4 0, sample_recommendation ''c'' 5 0]"
proof -
  let ?recs = "[sample_recommendation ''a'' 1 90, sample_recommendation ''b'' 4 0,
                sample_recommendation ''c'' 5 0]"
  have 1: "index_of sample_agent = Some sample_index" by (simp add: sample_agent_def)
  have 2: "tenders_of sample_agent \<noteq> []" by (simp add: sample_agent_def sample_store_def)
  have 3: "ntotal sample_index \<noteq> 0" by (simp add: ntotal_sample)
  have 4: "np_array [c_embedding sample_company] = Inr [[0]]"
    by (simp add: sample_company_def np_array_sample)
  have 5: "search sample_index (hd [[0]]) (min 10 (ntotal sample_index)) =
             Inr [(1, 0), (16, 1), (25, 2)]"
    by (simp add: ntotal_sample search_sample)
  have "tenders_of sample_agent = sample_store" by (simp add: sample_agent_def)
  then have 6: "score_neighbours (tenders_of sample_agent) [(1, 0), (16, 1), (25, 2)] [] = Inr ?recs"
    by (simp only: score_sample)
  have 7: "filter (\<lambda>r. similarity_score r = 0) ?recs =
             [sample_recommendation ''b'' 4 0, sample_recommendation ''c'' 5 0]"
    by (simp add: sample_recommendation_def)
  from sort_contract [of sample_agent sample_company 10 sample_index "[[0]]"
                         "[(1, 0), (16, 1), (25, 2)]" ?recs 0] 1 2 3 4 5 6 7
  show ?thesis by simp
qed

section \<open>At most ten recommendations\<close>

text \<open>
  C10. \<open>process_company_profile\<close> calls the matching engine with the default
  \<open>top_k = 10\<close>, which its caller cannot change. The engine asks the index for
  \<open>min 10 ntotal\<close> neighbours and builds at most one recommendation for each, so the
  list it returns, and the list in the structure returned by \<open>process_company_profile\<close>,
  have at most \<open>min 10 n\<close> elements, \<open>n\<close> the number of stored tenders.
\<close>

theorem at_most_ten_recommendations:
  "length (find_matching_tenders self company_info 10) \<le> min 10 (length (tenders_of self))
   \<and> (\<exists>recs. get_key ''recommendations'' (process_company_profile self extracted response)
                = Some (JArr recs)
              \<and> length recs \<le> min 10 (length (tenders_of self)))"
proof
  show "length (find_matching_tenders self company_info 10)
          \<le> min 10 (length (tenders_of self))"
    by (rule find_matching_tenders_length)
next
  show "\<exists>recs. get_key ''recommendations'' (process_company_profile self extracted response)
                = Some (JArr recs)
              \<and> length recs \<le> min 10 (length (tenders_of self))"
  proof (cases extracted)
    case (Inl a)
    then show ?thesis
      by (cases a) (simp add: process_company_profile_def)
  next
    case (Inr company_info)
    then show ?thesis
      using find_matching_tenders_length
              [of self "company_info\<lparr>c_embedding := get_embedding_company response\<rparr>" 10]
      by (simp add: process_company_profile_def Let_def)
  qed
qed

section \<open>The fallback vector of the two embedding paths\<close>

text \<open>
  On a failure of the embedding service both clients return a vector of zeros and
  raise nothing: the tender client \<open>VECTOR_DIMENSION\<close> zeros, the company client 384.
\<close>

lemma get_embedding_tender_fallback:
  "get_embedding_tender n (Raises e) = zeros n"
  "status_code \<noteq> 200 \<Longrightarrow> get_embedding_tender n (Response status_code b) = zeros n"
  "get_embedding_tender n (Response 200 NotJson) = zeros n"
  "map_of items ''embedding'' = None \<Longrightarrow>
     get_embedding_tender n (Response 200 (Json (JObj items))) = zeros n"
  by simp_all

lemma get_embedding_company_fallback:
  "get_embedding_company (Raises e) = zeros 384"
  "status_code \<noteq> 200 \<Longrightarrow> get_embedding_company (Response status_code b) = zeros 384"
  "get_embedding_company (Response 200 NotJson) = zeros 384"
  "map_of items ''embedding'' = None \<Longrightarrow>
     get_embedding_company (Response 200 (Json (JObj items))) = zeros 384"
  by simp_all

text \<open>
  C7. The claim asks for one dimension in both paths under every configuration. With
  \<open>VECTOR_DIMENSION = 768\<close> and an embedding service that answers with status 500, the
  tender client returns 768 zeros and the company client 384: the two vectors differ.
\<close>

theorem fallback_dimension_differs:
  "get_embedding_tender 768 (Response 500 NotJson) = zeros 768
   \<and> get_embedding_company (Response 500 NotJson) = zeros 384
   \<and> length (elements (get_embedding_tender 768 (Response 500 NotJson))) = 768
   \<and> length (elements (get_embedding_company (Response 500 NotJson))) = 384"
  by (simp add: zeros_def)

section \<open>The embedding in the external representation\<close>

text \<open>
  The dump of a recommendation with \<open>exclude={"tender_details.embedding"}\<close> keeps the
  embedding of the tender: no field of \<open>RecommendationSchema\<close> has that name.
\<close>

lemma recommendation_dump_keeps_embedding:
  "get_path [''tender_details'', ''embedding'']
     (recommendation_model_dump [''tender_details.embedding''] r) =
   Some (embedding (tender_details r))"
  by (simp add: recommendation_model_dump_def tender_model_dump_def drop_fields_def)

text \<open>
  C9. The claim asks that no \<open>tender_details\<close> of the returned structure contains an
  embedding. For the sample agent and company, each of the three recommendations that
  \<open>process_company_profile\<close> returns carries the embedding of its tender under
  \<open>tender_details.embedding\<close>.
\<close>

theorem embedding_in_tender_details:
  "map_option (\<lambda>recs. map (get_path [''tender_details'', ''embedding'']) (elements recs))
     (get_key ''recommendations''
        (process_company_profile sample_agent (Inr sample_company)
           (Response 200 (Json (JObj [(''embedding'', JArr [JNum 0])]))))) =
   Some [Some (JArr [JNum 1]), Some (JArr [JNum 4]), Some (JArr [JNum 5])]"
proof -
  have "sample_company\<lparr>c_embedding := JArr [JNum 0]\<rparr> = sample_company"
    by (simp add: sample_company_def)
  then show ?thesis
    by (simp add: process_company_profile_def find_sample
          recommendation_dump_keeps_embedding sample_recommendation_def sample_tender_def
          del: get_path.simps)
qed

section \<open>Amount extraction\<close>

lemma extract_amount_char:
  "extract_amount text =
     (case parsed_literal pattern1 text of
        Some x \<Rightarrow> Some (x * spec_multiplier text)
      | None \<Rightarrow>
          (case parsed_literal pattern2 text of
             Some x \<Rightarrow> Some (x * spec_multiplier text)
           | None \<Rightarrow> None))"
  by (simp add: extract_amount_def amount_patterns_def parsed_literal_def spec_multiplier_def
        split: option.splits)

lemma search_rs: "re_search pattern1 (ascii ''Rs. 1,000,000'') = Some (ascii ''1,000,000'')"
  by code_simp

lemma search_rupee1: "re_search pattern1 (8377 # ascii '' 10.5 Lakhs'') = Some (ascii ''10.5 Lakhs'')"
  by code_simp

lemma search_rupee2: "re_search pattern2 (8377 # ascii '' 10.5 Lakhs'') = Some (ascii ''10.5'')"
  by code_simp

lemma search_inr1: "re_search pattern1 (ascii ''INR 5 Cr'') = Some (ascii ''5 Cr'')"
  by code_simp

lemma search_inr2: "re_search pattern2 (ascii ''INR 5 Cr'') = Some (ascii ''5'')"
  by code_simp

lemma search_none:
  "re_search pattern1 (ascii ''no amount here'') = None"
  "re_search pattern2 (ascii ''no amount here'') = None"
  by code_simp+

lemma float_samples:
  "py_float (filter (\<lambda>c. c \<noteq> 44) (ascii ''1,000,000'')) = Some 1000000"
  "py_float (filter (\<lambda>c. c \<noteq> 44) (ascii ''10.5 Lakhs'')) = None"
  "py_float (filter (\<lambda>c. c \<noteq> 44) (ascii ''10.5'')) = Some (21 / 2)"
  "py_float (filter (\<lambda>c. c \<noteq> 44) (ascii ''5 Cr'')) = None"
  "py_float (filter (\<lambda>c. c \<noteq> 44) (ascii ''5'')) = Some 5"
  by (simp_all add: py_float_def ascii_def is_c_space_def is_digit_def digits_value_def)

lemma multiplier_samples:
  "spec_multiplier (ascii ''Rs. 1,000,000'') = 1"
  "spec_multiplier (8377 # ascii '' 10.5 Lakhs'') = 100000"
  "spec_multiplier (ascii ''INR 5 Cr'') = 10000000"
proof -
  have "py_in (ascii ''lakh'') (py_lower (ascii ''Rs. 1,000,000'')) = False"
       "py_in (ascii ''cr'') (py_lower (ascii ''Rs. 1,000,000'')) = False"
       "py_in (ascii ''crore'') (py_lower (ascii ''Rs. 1,000,000'')) = False"
    by code_simp+
  then show "spec_multiplier (ascii ''Rs. 1,000,000'') = 1"
    by (simp add: spec_multiplier_def)
  have "py_in (ascii ''lakh'') (py_lower (8377 # ascii '' 10.5 Lakhs'')) = True"
    by code_simp
  then show "spec_multiplier (8377 # ascii '' 10.5 Lakhs'') = 100000"
    by (simp add: spec_multiplier_def)
  have "py_in (ascii ''lakh'') (py_lower (ascii ''INR 5 Cr'')) = False"
       "py_in (ascii ''cr'') (py_lower (ascii ''INR 5 Cr'')) = True"
    by code_simp+
  then show "spec_multiplier (ascii ''INR 5 Cr'') = 10000000"
    by (simp add: spec_multiplier_def)
qed

lemma extract_rs: "extract_amount (ascii ''Rs. 1,000,000'') = Some 1000000"
  by (simp add: extract_amount_char parsed_literal_def search_rs float_samples
        multiplier_samples del: re_search.simps)

lemma extract_rupee: "extract_amount (8377 # ascii '' 10.5 Lakhs'') = Some 1050000"
  by (simp add: extract_amount_char parsed_literal_def search_rupee1 search_rupee2
        float_samples multiplier_samples del: re_search.simps)

lemma extract_inr: "extract_amount (ascii ''INR 5 Cr'') = Some 50000000"
  by (simp add: extract_amount_char parsed_literal_def search_inr1 search_inr2
        float_samples multiplier_samples del: re_search.simps)

text \<open>
  C3. The extractor gives 1000000 on "Rs. 1,000,000", 1050000 on the rupee sign
  followed by " 10.5 Lakhs" and 50000000 on "INR 5 Cr". On a text \<open>t\<close> in which neither
  pattern matches it returns no result. Whenever it returns a value \<open>v\<close> on a text \<open>u\<close>,
  \<open>v\<close> is the number parsed from the literal of one of the two patterns, its commas
  removed, times the multiplier of the specification: 100,000 if the lower-cased text
  contains "lakh", else 10,000,000 if it contains "cr" or "crore", else 1.
\<close>

theorem amount_extraction:
  "extract_amount (ascii ''Rs. 1,000,000'') = Some 1000000
   \<and> extract_amount (8377 # ascii '' 10.5 Lakhs'') = Some 1050000
   \<and> extract_amount (ascii ''INR 5 Cr'') = Some 50000000
   \<and> (re_search pattern1 t = None \<and> re_search pattern2 t = None
        \<longrightarrow> extract_amount t = None)
   \<and> (extract_amount u = Some v \<longrightarrow>
        (\<exists>g x. (re_search pattern1 u = Some g \<or> re_search pattern2 u = Some g)
               \<and> py_float (filter (\<lambda>c. c \<noteq> 44) g) = Some x
               \<and> v = x * spec_multiplier u))"
proof -
  have none: "re_search pattern1 t = None \<and> re_search pattern2 t = None
                \<longrightarrow> extract_amount t = None"
    by (simp add: extract_amount_char parsed_literal_def)
  have some: "extract_amount u = Some v \<longrightarrow>
        (\<exists>g x. (re_search pattern1 u = Some g \<or> re_search pattern2 u = Some g)
               \<and> py_float (filter (\<lambda>c. c \<noteq> 44) g) = Some x
               \<and> v = x * spec_multiplier u)"
    by (auto simp: extract_amount_char parsed_literal_def split: option.splits)
  from extract_rs extract_rupee extract_inr none some show ?thesis by blast
qed

theorem amount_extraction_witness:
  "re_search pattern1 (ascii ''no amount here'') = None
   \<and> re_search pattern2 (ascii ''no amount here'') = None
   \<and> extract_amount (ascii ''no amount here'') = None
   \<and> extract_amount (ascii ''INR 5 Cr'') = Some 50000000
   \<and> (\<exists>g x. (re_search pattern1 (ascii ''INR 5 Cr'') = Some g
               \<or> re_search pattern2 (ascii ''INR 5 Cr'') = Some g)
             \<and> py_float (filter (\<lambda>c. c \<noteq> 44) g) = Some x
             \<and> (50000000 :: real) = x * spec_multiplier (ascii ''INR 5 Cr''))"
  using amount_extraction [of "ascii ''no amount here''" "ascii ''INR 5 Cr''" 50000000]
    search_none extract_inr
  by (simp del: re_search.simps)

section \<open>The order of the patterns\<close>

text \<open>
  C4, as stated, fails. On "INR 5 Cr" the first pattern is the first that matches, its
  literal "5 Cr" does not parse as a number, and the extractor returns 50000000, not
  no result.
\<close>

theorem first_match_counterexample:
  "re_search pattern1 (ascii ''INR 5 Cr'') = Some (ascii ''5 Cr'')
   \<and> py_float (filter (\<lambda>c. c \<noteq> 44) (ascii ''5 Cr'')) = None
   \<and> extract_amount (ascii ''INR 5 Cr'') \<noteq> None"
  by (simp add: search_inr1 float_samples extract_inr del: re_search.simps)

text \<open>
  C4, amended. The two patterns are tried in order, and the first pattern whose literal
  parses as a number, after its commas are removed, gives the result: when the first
  pattern does not match or its literal does not parse, the second pattern is tried on
  the same text. The extractor returns no result exactly when each of the two patterns
  does not match or has a literal that does not parse.
\<close>

theorem first_parsed_literal_wins:
  "(parsed_literal pattern1 text = Some x \<longrightarrow>
      extract_amount text = Some (x * spec_multiplier text))
   \<and> (parsed_literal pattern1 text = None \<and> parsed_literal pattern2 text = Some y \<longrightarrow>
      extract_amount text = Some (y * spec_multiplier text))
   \<and> (extract_amount text = None \<longleftrightarrow>
      parsed_literal pattern1 text = None \<and> parsed_literal pattern2 text = None)
   \<and> (parsed_literal pattern1 text = None \<longleftrightarrow>
      re_search pattern1 text = None
      \<or> (\<exists>g. re_search pattern1 text = Some g \<and> py_float (filter (\<lambda>c. c \<noteq> 44) g) = None))
   \<and> (parsed_literal pattern2 text = None \<longleftrightarrow>
      re_search pattern2 text = None
      \<or> (\<exists>g. re_search pattern2 text = Some g \<and> py_float (filter (\<lambda>c. c \<noteq> 44) g) = None))"
  by (auto simp: extract_amount_char parsed_literal_def split: option.splits)

theorem first_parsed_literal_wins_witness:
  "parsed_literal pattern1 (ascii ''INR 5 Cr'') = None
   \<and> parsed_literal pattern2 (ascii ''INR 5 Cr'') = Some 5
   \<and> extract_amount (ascii ''INR 5 Cr'') = Some (5 * spec_multiplier (ascii ''INR 5 Cr''))
   \<and> parsed_literal pattern1 (ascii ''Rs. 1,000,000'') = Some 1000000
   \<and> extract_amount (ascii ''Rs. 1,000,000'')
        = Some (1000000 * spec_multiplier (ascii ''Rs. 1,000,000''))"
proof -
  have 1: "parsed_literal pattern1 (ascii ''INR 5 Cr'') = None"
    by (simp add: parsed_literal_def search_inr1 float_samples del: re_search.simps)
  have 2: "parsed_literal pattern2 (ascii ''INR 5 Cr'') = Some 5"
    by (simp add: parsed_literal_def search_inr2 float_samples del: re_search.simps)
  have 3: "parsed_literal pattern1 (ascii ''Rs. 1,000,000'') = Some 1000000"
    by (simp add: parsed_literal_def search_rs float_samples del: re_search.simps)
  from first_parsed_literal_wins [of "ascii ''INR 5 Cr''" _ 5] 1 2
  have 4: "extract_amount (ascii ''INR 5 Cr'') = Some (5 * spec_multiplier (ascii ''INR 5 Cr''))"
    by blast
  from first_parsed_literal_wins [of "ascii ''Rs. 1,000,000''" 1000000] 3
  have 5: "extract_amount (ascii ''Rs. 1,000,000'')
             = Some (1000000 * spec_multiplier (ascii ''Rs. 1,000,000''))"
    by blast
  from 1 2 3 4 5 show ?thesis by blast
qed

section \<open>Alignment of index and store\<close>

lemma embed_loop_eq:
  "embed_loop n svc i ts (nt, es) =
     (nt @ embedded n svc i ts, es @ map embedding (embedded n svc i ts))"
  by (induction ts arbitrary: i nt es) (simp_all add: Let_def)

lemma np_array_Inr: "np_array es = Inr arr \<Longrightarrow> map as_vec es = map Some arr"
  by (auto simp: np_array_def list_all_iff split: if_splits)

lemma add_Inr: "add ix xs = Inr ix' \<Longrightarrow> vectors ix' = vectors ix @ xs"
  by (auto simp: add_def split: if_splits)

lemma aligned_iff:
  "aligned self \<longleftrightarrow> map stored_vec (tenders_of self) = map Some (index_vectors self)"
  by (cases "index_of self") (simp_all add: aligned_def index_vectors_def)

lemma update_index_completed:
  assumes "update_index n self es = (None, self')" and "es \<noteq> []"
  shows "tenders_of self' = tenders_of self
         \<and> map Some (index_vectors self') = map Some (index_vectors self) @ map as_vec es
         \<and> index_of self' \<noteq> None"
proof -
  from assms obtain arr where arr: "np_array es = Inr arr"
    by (cases "np_array es") (simp_all add: update_index_def)
  let ?ix = "case index_of self of None \<Rightarrow> IndexFlatL2 n | Some ix \<Rightarrow> ix"
  from assms arr obtain ix' where ix': "add ?ix arr = Inr ix'"
    and self': "self' = self\<lparr>index_of := Some ix'\<rparr>"
    by (cases "add ?ix arr") (auto simp: update_index_def Let_def)
  have "vectors ?ix = index_vectors self"
    by (cases "index_of self") (simp_all add: index_vectors_def IndexFlatL2_def)
  with add_Inr [OF ix'] have "index_vectors self' = index_vectors self @ arr"
    by (simp add: self' index_vectors_def)
  with np_array_Inr [OF arr] self' show ?thesis by simp
qed

lemma load_aligned:
  assumes "aligned self" and "files_consistent (index_file dk) (tenders_file dk)"
  shows "aligned (load_index_and_tenders self dk)"
proof (cases "index_file dk")
  case Absent
  with assms have "tenders_file dk = Absent" by (cases "tenders_file dk") simp_all
  with Absent have "load_index_and_tenders self dk = self"
    by (simp add: load_index_and_tenders_def)
  with assms show ?thesis by simp
next
  case Corrupt
  with assms show ?thesis by simp
next
  case (Good ix)
  with assms obtain ts where ts: "tenders_file dk = Good ts"
    by (cases "tenders_file dk") simp_all
  with Good have "load_index_and_tenders self dk = \<lparr>index_of = Some ix, tenders_of = ts\<rparr>"
    by (simp add: load_index_and_tenders_def)
  with assms Good ts show ?thesis by simp
qed

lemma process_completed:
  assumes cw: "consistent w" and ws: "writes_succeed c"
    and p: "process_and_store_tenders n c w batch = (None, self', dk')"
  shows "tenders_of self' =
           tenders_of (load_index_and_tenders
                         (if new_agent c then \<lparr>index_of = None, tenders_of = []\<rparr> else fst w)
                         (snd w))
           @ map Tender (embedded n (ollama c) 0 batch)
         \<and> map Some (index_vectors self') =
             map Some (index_vectors (load_index_and_tenders
                         (if new_agent c then \<lparr>index_of = None, tenders_of = []\<rparr> else fst w)
                         (snd w)))
             @ map (\<lambda>t. as_vec (embedding t)) (embedded n (ollama c) 0 batch)
         \<and> consistent (self', dk')"
proof -
  define start where
    "start = (if new_agent c then \<lparr>index_of = None, tenders_of = []\<rparr> else fst w)"
  define before where "before = load_index_and_tenders start (snd w)"
  define new where "new = embedded n (ollama c) 0 batch"
  have pdef: "process_and_store_tenders n c w batch =
      (if new = [] then (None, before, snd w)
       else (case update_index n (before\<lparr>tenders_of := tenders_of before @ map Tender new\<rparr>)
                     (map embedding new) of
               (Some e, s') \<Rightarrow> (Some e, s', snd w)
             | (None, s') \<Rightarrow> (None, s', save_index_and_tenders c s' (snd w))))"
    by (simp add: process_and_store_tenders_def embed_loop_eq Let_def before_def start_def
          new_def)
  from cw have fc: "files_consistent (index_file (snd w)) (tenders_file (snd w))"
    by (simp add: consistent_def)
  from cw have "aligned start" by (simp add: consistent_def aligned_def start_def)
  from load_aligned [OF this fc] have ab: "aligned before" by (simp add: before_def)
  have "tenders_of self' = tenders_of before @ map Tender new
        \<and> map Some (index_vectors self') =
            map Some (index_vectors before) @ map (\<lambda>t. as_vec (embedding t)) new
        \<and> consistent (self', dk')"
  proof (cases "new = []")
    case True
    with p pdef have "self' = before" "dk' = snd w" by simp_all
    with True ab fc show ?thesis by (simp add: consistent_def)
  next
    case False
    let ?self2 = "before\<lparr>tenders_of := tenders_of before @ map Tender new\<rparr>"
    from p pdef False have u: "update_index n ?self2 (map embedding new) = (None, self')"
      and dk': "dk' = save_index_and_tenders c self' (snd w)"
      by (auto split: prod.splits option.splits)
    from False have ne: "map embedding new \<noteq> []" by simp
    from update_index_completed [OF u ne] have
      t: "tenders_of self' = tenders_of before @ map Tender new" and
      v: "map Some (index_vectors self') =
            map Some (index_vectors before) @ map (\<lambda>t. as_vec (embedding t)) new" and
      some: "index_of self' \<noteq> None"
      by (simp_all add: index_vectors_def comp_def)
    from ab have "map stored_vec (tenders_of before) = map Some (index_vectors before)"
      by (simp add: aligned_iff)
    with t v have a': "aligned self'" by (simp add: aligned_iff comp_def)
    from some obtain ix' where ix': "index_of self' = Some ix'" by auto
    then have "self' = \<lparr>index_of = Some ix', tenders_of = tenders_of self'\<rparr>" by simp
    with a' have "aligned \<lparr>index_of = Some ix', tenders_of = tenders_of self'\<rparr>" by simp
    with ws ix' dk' have "files_consistent (index_file dk') (tenders_file dk')"
      by (simp add: save_index_and_tenders_def writes_succeed_def)
    with a' t v show ?thesis by (simp add: consistent_def)
  qed
  then show ?thesis by (simp only: before_def start_def new_def)
qed

lemma run_cycles_consistent:
  assumes "consistent w" and "list_all (\<lambda>(c, batch). writes_succeed c) cycles"
    and "run_cycles n w cycles = Some w1"
  shows "consistent w1"
  using assms
proof (induction cycles arbitrary: w)
  case Nil
  then show ?case by simp
next
  case (Cons a cycles)
  obtain c batch where a: "a = (c, batch)" by (cases a)
  from Cons.prems a obtain self' dk' where
    p: "process_and_store_tenders n c w batch = (None, self', dk')" and
    r: "run_cycles n (self', dk') cycles = Some w1"
    by (auto split: prod.splits option.splits)
  from Cons.prems a have "writes_succeed c" by simp
  from process_completed [OF Cons.prems(1) this p] have "consistent (self', dk')" by simp
  from Cons.IH [OF this _ r] Cons.prems show ?case by simp
qed

lemma embedding_sample:
  "get_embedding_tender n (ollama_one i prompt) = JArr [JNum 1]"
  by (simp add: ollama_one_def)

lemma np_array_one: "np_array [JArr [JNum 1]] = Inr [[1]]"
  by (simp add: np_array_def)

lemma first_cycle_run:
  "process_and_store_tenders 1 first_cycle empty_state [sample_tender ''a'' JNull] =
     (None,
      \<lparr>index_of = Some \<lparr>d = 1, vectors = [[1]]\<rparr>,
        tenders_of = [Tender (sample_tender ''a'' (JArr [JNum 1]))]\<rparr>,
      \<lparr>index_file = Absent,
        tenders_file = Good [Tender (sample_tender ''a'' (JArr [JNum 1]))]\<rparr>)"
  by (simp add: process_and_store_tenders_def embed_loop_eq first_cycle_def empty_state_def
        load_index_and_tenders_def embedding_sample update_index_def np_array_one
        IndexFlatL2_def add_def save_index_and_tenders_def sample_tender_def Let_def)

lemma second_cycle_run:
  "process_and_store_tenders 1 good_cycle
     (\<lparr>index_of = Some \<lparr>d = 1, vectors = [[1]]\<rparr>,
        tenders_of = [Tender (sample_tender ''a'' (JArr [JNum 1]))]\<rparr>,
      \<lparr>index_file = Absent,
        tenders_file = Good [Tender (sample_tender ''a'' (JArr [JNum 1]))]\<rparr>)
     [sample_tender ''b'' JNull] =
     (None,
      \<lparr>index_of = Some \<lparr>d = 1, vectors = [[1]]\<rparr>,
        tenders_of = [Tender (sample_tender ''a'' (JArr [JNum 1])),
                      Tender (sample_tender ''b'' (JArr [JNum 1]))]\<rparr>,
      \<lparr>index_file = Good \<lparr>d = 1, vectors = [[1]]\<rparr>,
        tenders_file = Good [Tender (sample_tender ''a'' (JArr [JNum 1])),
                             Tender (sample_tender ''b'' (JArr [JNum 1]))]\<rparr>)"
  by (simp add: process_and_store_tenders_def embed_loop_eq good_cycle_def
        load_index_and_tenders_def embedding_sample update_index_def np_array_one
        IndexFlatL2_def add_def save_index_and_tenders_def sample_tender_def Let_def)

lemma good_cycle_run:
  "process_and_store_tenders 1 good_cycle empty_state [sample_tender ''a'' JNull] =
     (None,
      \<lparr>index_of = Some \<lparr>d = 1, vectors = [[1]]\<rparr>,
        tenders_of = [Tender (sample_tender ''a'' (JArr [JNum 1]))]\<rparr>,
      \<lparr>index_file = Good \<lparr>d = 1, vectors = [[1]]\<rparr>,
        tenders_file = Good [Tender (sample_tender ''a'' (JArr [JNum 1]))]\<rparr>)"
  by (simp add: process_and_store_tenders_def embed_loop_eq good_cycle_def empty_state_def
        load_index_and_tenders_def embedding_sample update_index_def np_array_one
        IndexFlatL2_def add_def save_index_and_tenders_def sample_tender_def Let_def)

lemma good_cycle_again:
  "process_and_store_tenders 1 good_cycle
     (\<lparr>index_of = Some \<lparr>d = 1, vectors = [[1]]\<rparr>,
        tenders_of = [Tender (sample_tender ''a'' (JArr [JNum 1]))]\<rparr>,
      \<lparr>index_file = Good \<lparr>d = 1, vectors = [[1]]\<rparr>,
        tenders_file = Good [Tender (sample_tender ''a'' (JArr [JNum 1]))]\<rparr>)
     [sample_tender ''b'' JNull] =
     (None,
      \<lparr>index_of = Some \<lparr>d = 1, vectors = [[1], [1]]\<rparr>,
        tenders_of = [Tender (sample_tender ''a'' (JArr [JNum 1])),
                      Tender (sample_tender ''b'' (JArr [JNum 1]))]\<rparr>,
      \<lparr>index_file = Good \<lparr>d = 1, vectors = [[1], [1]]\<rparr>,
        tenders_file = Good [Tender (sample_tender ''a'' (JArr [JNum 1])),
                             Tender (sample_tender ''b'' (JArr [JNum 1]))]\<rparr>)"
  by (simp add: process_and_store_tenders_def embed_loop_eq good_cycle_def
        load_index_and_tenders_def embedding_sample update_index_def np_array_one
        IndexFlatL2_def add_def save_index_and_tenders_def sample_tender_def Let_def)

text \<open>
  C1, as stated, fails. Two append operations that both complete, each on a newly
  constructed agent as the scrape node of the graph runs them: in the first the write
  of the index raises (the file stays absent) and the write of the tenders succeeds; the
  second finds one stored tender and no index, and builds a new index from its own
  batch. After it the index holds one vector and the store two tenders.
\<close>

theorem alignment_counterexample:
  "map_option (\<lambda>w. (length (index_vectors (fst w)), length (tenders_of (fst w))))
     (run_cycles 1 empty_state
        [(first_cycle, [sample_tender ''a'' JNull]),
         (good_cycle, [sample_tender ''b'' JNull])]) =
   Some (1, 2)"
  by (simp add: first_cycle_run second_cycle_run index_vectors_def del: One_nat_def)

text \<open>
  C1, amended. Take a sequence of append operations that starts in a consistent state
  (the agent aligned, the two files both absent or both holding an aligned pair), in
  which every operation completes without an exception and every write of the index
  and of the tenders succeeds. After each of them the index and the store have equal
  counts and the vector at ordinal \<open>i\<close> is the embedding kept in the tender at position
  \<open>i\<close>. The operation appends to the store every tender of its batch, carrying the
  embedding that \<open>get_embedding\<close> returned for its title, a space and its description,
  and appends to the index exactly these embeddings, in the same order; the state
  afterwards is consistent again.
\<close>

theorem alignment_after_each_append:
  assumes "consistent w"
    and "list_all (\<lambda>(c, batch). writes_succeed c) cycles"
    and "writes_succeed c"
    and "run_cycles n w cycles = Some w1"
    and "process_and_store_tenders n c w1 batch = (None, self', dk')"
  shows "length (index_vectors self') = length (tenders_of self')
         \<and> map stored_vec (tenders_of self') = map Some (index_vectors self')
         \<and> tenders_of self' =
             tenders_of (load_index_and_tenders
                           (if new_agent c then \<lparr>index_of = None, tenders_of = []\<rparr> else fst w1)
                           (snd w1))
             @ map Tender (embedded n (ollama c) 0 batch)
         \<and> map Some (index_vectors self') =
             map Some (index_vectors (load_index_and_tenders
                           (if new_agent c then \<lparr>index_of = None, tenders_of = []\<rparr> else fst w1)
                           (snd w1)))
             @ map (\<lambda>t. as_vec (embedding t)) (embedded n (ollama c) 0 batch)
         \<and> consistent (self', dk')"
proof -
  from run_cycles_consistent [OF assms(1) assms(2) assms(4)] have c1: "consistent w1" .
  note step = process_completed [OF c1 assms(3) assms(5)]
  from step have "aligned self'" by (simp add: consistent_def)
  then have al: "map stored_vec (tenders_of self') = map Some (index_vectors self')"
    by (simp add: aligned_iff)
  then have "length (map stored_vec (tenders_of self')) = length (map Some (index_vectors self'))"
    by simp
  then have "length (index_vectors self') = length (tenders_of self')" by simp
  with al step show ?thesis by blast
qed

theorem alignment_after_each_append_witness:
  "consistent empty_state
   \<and> list_all (\<lambda>(c, batch). writes_succeed c) [(good_cycle, [sample_tender ''a'' JNull])]
   \<and> writes_succeed good_cycle
   \<and> run_cycles 1 empty_state [(good_cycle, [sample_tender ''a'' JNull])] =
        Some (\<lparr>index_of = Some \<lparr>d = 1, vectors = [[1]]\<rparr>,
                tenders_of = [Tender (sample_tender ''a'' (JArr [JNum 1]))]\<rparr>,
              \<lparr>index_file = Good \<lparr>d = 1, vectors = [[1]]\<rparr>,
                tenders_file = Good [Tender (sample_tender ''a'' (JArr [JNum 1]))]\<rparr>)
   \<and> length (index_vectors
        \<lparr>index_of = Some \<lparr>d = 1, vectors = [[1], [1]]\<rparr>,
          tenders_of = [Tender (sample_tender ''a'' (JArr [JNum 1])),
                        Tender (sample_tender ''b'' (JArr [JNum 1]))]\<rparr>) = 2
   \<and> map stored_vec
        [Tender (sample_tender ''a'' (JArr [JNum 1])),
         Tender (sample_tender ''b'' (JArr [JNum 1]))] = [Some [1], Some [1]]"
proof -
  let ?w1 = "(\<lparr>index_of = Some \<lparr>d = 1, vectors = [[1]]\<rparr>,
                tenders_of = [Tender (sample_tender ''a'' (JArr [JNum 1]))]\<rparr>,
              \<lparr>index_file = Good \<lparr>d = 1, vectors = [[1]]\<rparr>,
                tenders_file = Good [Tender (sample_tender ''a'' (JArr [JNum 1]))]\<rparr>)"
  have 1: "consistent empty_state"
    by (simp add: consistent_def empty_state_def aligned_def)
  have 3: "writes_succeed good_cycle" by (simp add: writes_succeed_def good_cycle_def)
  then have 2: "list_all (\<lambda>(c, batch). writes_succeed c) [(good_cycle, [sample_tender ''a'' JNull])]"
    by simp
  have 4: "run_cycles 1 empty_state [(good_cycle, [sample_tender ''a'' JNull])] = Some ?w1"
    by (simp add: good_cycle_run del: One_nat_def)
  from alignment_after_each_append [OF 1 2 3 4 good_cycle_again] 1 2 3 4
  show ?thesis by (simp add: index_vectors_def)
qed

end
